theory Spec2Isabelle
  imports Complex_Main
begin

section \<open>Data model of \<open>pastastore/plotting.py\<close>\<close>

text \<open>
  The module draws time series held in a store. Two methods of class \<open>Plots\<close> are
  embedded here: \<open>_data_availability\<close> (the gap heat map) and \<open>_timeseries\<close> (line
  plots, optionally one panel per series).

  Numbers: a pandas timestamp is a count of nanoseconds, modelled as \<open>int\<close>; the
  interval table holds numbers of seconds, and \<open>astype(float)\<close> yields IEEE doubles,
  modelled as \<open>real\<close> (the rounding of doubles is outside the model). A missing value
  (NaN) of a series is \<open>None\<close>.

  Calls into matplotlib are recorded on the value that the method returns (which
  meshes were requested, with which cells, norm, ticks and labels). What matplotlib
  does inside such a call is not part of the module and is not modelled.
\<close>

datatype error = ValueError | IndexError | UnboundLocalError

text \<open>A Python \<open>dict\<close> keeps insertion order: an association list.\<close>

type_synonym intervals = "(string \<times> real) list"

record series =
  s_name :: string
  s_rows :: "(int \<times> real option) list"

text \<open>The two normalisations that \<open>_data_availability\<close> constructs.\<close>

datatype norm = LogNorm real real | BoundaryNorm "real list" nat

text \<open>One call \<open>ax.pcolormesh(X, [i, i + 1], [C], norm=norm, cmap=cmap, ...)\<close>.\<close>

record mesh =
  mesh_row :: nat
  mesh_x :: "int list"
  mesh_cells :: "real list"

text \<open>What \<open>_data_availability\<close> has requested from matplotlib when it returns.\<close>

record canvas =
  c_meshes :: "mesh list"
  c_norm :: norm
  c_cmap :: string
  c_over :: "real \<times> real \<times> real"
  c_ticks :: "real list"
  c_ticklabels :: "string list"
  c_yticks :: "real list"
  c_yticklabels :: "string list"
  c_ylabel :: "string option"

section \<open>The interval table\<close>

text \<open>The literal table of \<open>_data_availability\<close>, used when \<open>intervals is None\<close>.\<close>

definition default_intervals :: intervals where
  "default_intervals =
     [(''second'', 1),
      (''minute'', 60),
      (''hour'', 60 * 60),
      (''day'', 60 * 60 * 24),
      (''week'', 60 * 60 * 24 * 7),
      (''14 days'', 60 * 60 * 24 * 14),
      (''month'', 60 * 60 * 24 * 31),
      (''quarter'', 60 * 60 * 24 * 31 * 4),
      (''year'', 60 * 60 * 24 * 366)]"

text \<open>The default of the parameter \<open>ignore\<close>.\<close>

definition default_ignore :: "string list" where
  "default_ignore = [''second'', ''minute'', ''14 days'']"

text \<open>\<open>i in intervals\<close>, \<open>intervals.pop(i)\<close>, \<open>intervals[i]\<close> and \<open>intervals.keys()\<close>.\<close>

definition dict_contains :: "intervals \<Rightarrow> string \<Rightarrow> bool" where
  "dict_contains d k = (k \<in> set (map fst d))"

definition dict_pop :: "string \<Rightarrow> intervals \<Rightarrow> intervals" where
  "dict_pop k d = filter (\<lambda>kv. fst kv \<noteq> k) d"

definition dict_keys :: "intervals \<Rightarrow> string list" where
  "dict_keys d = map fst d"

definition dict_get :: "intervals \<Rightarrow> string \<Rightarrow> real" where
  "dict_get d k = (case map_of d k of Some v \<Rightarrow> v | None \<Rightarrow> 0)"

text \<open>
  \<^verbatim>\<open>for i in ignore:
    if i in intervals:
        intervals.pop(i)\<close>
\<close>

fun remove_ignored :: "string list \<Rightarrow> intervals \<Rightarrow> intervals" where
  "remove_ignored [] d = d"
| "remove_ignored (i # ignore) d =
     remove_ignored ignore (if dict_contains d i then dict_pop i d else d)"

text \<open>
  The table in force: the removal loop sits inside the branch \<open>if intervals is None\<close>,
  so a table passed by the caller is taken as it is.
\<close>

definition resolve_intervals :: "intervals option \<Rightarrow> string list \<Rightarrow> intervals" where
  "resolve_intervals intervals ignore =
     (case intervals of
        None \<Rightarrow> remove_ignored ignore default_intervals
      | Some d \<Rightarrow> d)"

text \<open>
  \<^verbatim>\<open>bounds = np.array([intervals[i] for i in intervals])
bounds = bounds.astype(float) * (10**9)
labels = intervals.keys()\<close>
  The lookup \<open>intervals[i]\<close> is made for keys of the dict itself, so it never misses
  (the \<open>None\<close> branch of \<open>dict_get\<close> is not reached from here).
\<close>

definition bounds_of :: "intervals \<Rightarrow> real list" where
  "bounds_of d = map (\<lambda>v. v * 10 ^ 9) (map (dict_get d) (dict_keys d))"

definition labels_of :: "intervals \<Rightarrow> string list" where
  "labels_of d = dict_keys d"

section \<open>Gaps of one series\<close>

text \<open>\<open>s.empty\<close>, \<open>s.dropna()\<close> and \<open>s.index\<close> of pandas.\<close>

definition s_empty :: "series \<Rightarrow> bool" where
  "s_empty s = (s_rows s = [])"

definition s_dropna :: "series \<Rightarrow> series" where
  "s_dropna s = s\<lparr>s_rows := filter (\<lambda>r. snd r \<noteq> None) (s_rows s)\<rparr>"

definition s_index :: "series \<Rightarrow> int list" where
  "s_index s = map fst (s_rows s)"

text \<open>\<open>np.diff(a)\<close> of a one-dimensional array is \<open>a[1:] - a[:-1]\<close>.\<close>

definition np_diff :: "int list \<Rightarrow> int list" where
  "np_diff a = map2 (\<lambda>y x. y - x) (tl a) (butlast a)"

text \<open>
  The series whose index is drawn: \<^verbatim>\<open>if dropna: s = s.dropna()\<close>.
\<close>

definition retained :: "bool \<Rightarrow> series \<Rightarrow> series" where
  "retained dropna s = (if dropna then s_dropna s else s)"

text \<open>The cell values \<open>np.diff(s.index).astype(float)\<close> of one row.\<close>

definition gap_durations :: "bool \<Rightarrow> series \<Rightarrow> real list" where
  "gap_durations dropna s = map real_of_int (np_diff (s_index (retained dropna s)))"

definition pcolormesh :: "nat \<Rightarrow> bool \<Rightarrow> series \<Rightarrow> mesh" where
  "pcolormesh i dropna s =
     \<lparr>mesh_row = i,
      mesh_x = s_index (retained dropna s),
      mesh_cells = gap_durations dropna s\<rparr>"

text \<open>
  \<^verbatim>\<open>for i, s in enumerate(series):
    if not s.empty:
        if dropna:
            s = s.dropna()
        pc = ax.pcolormesh(s.index, [i, i + 1], [np.diff(s.index).astype(float)], ...)\<close>
  The state of the loop is the variable \<open>pc\<close> (unbound before the first assignment)
  and the meshes requested so far.
\<close>

fun draw_rows ::
  "bool \<Rightarrow> nat \<Rightarrow> series list \<Rightarrow> mesh option \<times> mesh list \<Rightarrow> mesh option \<times> mesh list"
where
  "draw_rows dropna i [] st = st"
| "draw_rows dropna i (s # ss) st =
     (if \<not> s_empty s
      then draw_rows dropna (Suc i) ss
             (Some (pcolormesh i dropna s), snd st @ [pcolormesh i dropna s])
      else draw_rows dropna (Suc i) ss st)"

section \<open>Normalisation\<close>

text \<open>
  \<^verbatim>\<open>if normtype == 'log':
    norm = LogNorm(vmin=bounds[0], vmax=bounds[-1])
else:
    norm = BoundaryNorm(boundaries=bounds, ncolors=256)\<close>
  Reading \<open>bounds[0]\<close> of an empty array raises \<open>IndexError\<close>.
\<close>

definition make_norm :: "string \<Rightarrow> real list \<Rightarrow> error + norm" where
  "make_norm normtype bounds =
     (if normtype = ''log''
      then (case bounds of
              [] \<Rightarrow> Inl IndexError
            | b # _ \<Rightarrow> Inr (LogNorm b (last bounds)))
      else Inr (BoundaryNorm bounds 256))"

section \<open>The heat map \<open>_data_availability\<close>\<close>

text \<open>
  After the loop, \<open>f.colorbar(pc, ...)\<close> reads \<open>pc\<close>; when no series passed the
  test \<open>not s.empty\<close> the variable was never assigned and Python raises
  \<open>UnboundLocalError\<close>. The parameters \<open>figsize\<close> and \<open>kwargs\<close> only reach
  \<open>plt.subplots\<close> and are left out.
\<close>

definition data_availability ::
  "series list \<Rightarrow> string list option \<Rightarrow> intervals option \<Rightarrow> string list \<Rightarrow> string \<Rightarrow>
   string \<Rightarrow> bool \<Rightarrow> bool \<Rightarrow> error + canvas"
where
  "data_availability series names intervals ignore normtype cmap set_yticks dropna =
     (let d = resolve_intervals intervals ignore;
          bounds = bounds_of d;
          labels = labels_of d
      in case make_norm normtype bounds of
           Inl e \<Rightarrow> Inl e
         | Inr nrm \<Rightarrow>
             (case draw_rows dropna 0 series (None, []) of
                (None, ms) \<Rightarrow> Inl UnboundLocalError
              | (Some pc, ms) \<Rightarrow>
                  Inr \<lparr>c_meshes = ms,
                       c_norm = nrm,
                       c_cmap = cmap,
                       c_over = (1, 1, 1),
                       c_ticks = bounds,
                       c_ticklabels = labels,
                       c_yticks =
                         (if set_yticks
                          then map (\<lambda>k. 0.5 + real k) [0..<length series] else []),
                       c_yticklabels =
                         (if set_yticks
                          then (case names of None \<Rightarrow> map s_name series | Some ns \<Rightarrow> ns)
                          else []),
                       c_ylabel =
                         (if set_yticks then None else Some ''Timeseries (-)'')\<rparr>))"

section \<open>The line plot \<open>_timeseries\<close>\<close>




section \<open>The discrete normaliser\<close>

datatype bucket = Under_Range | Bucket nat | Over_Range

text \<open>
  Modelled from the spec: the call of the discrete normaliser. The module only
  constructs \<open>BoundaryNorm(boundaries=bounds, ncolors=256)\<close>; the class itself is
  matplotlib's and is not among the sources. The spec (section 4.3) gives its
  behaviour: a gap \<open>g\<close> goes to the index \<open>i\<close> with
  \<open>boundaries[i] \<le> g < boundaries[i+1]\<close>; a gap below the first boundary or at or
  after the last one goes to an extreme swatch. The spec requires at least two
  boundaries (section 3); with fewer the result is \<open>None\<close>.
\<close>

fun bucket_search :: "real list \<Rightarrow> real \<Rightarrow> nat \<Rightarrow> nat option" where
  "bucket_search (a # b # bs) g i =
     (if a \<le> g \<and> g < b then Some i else bucket_search (b # bs) g (Suc i))"
| "bucket_search _ g i = None"

definition discrete_norm :: "real list \<Rightarrow> real \<Rightarrow> bucket option" where
  "discrete_norm boundaries g =
     (if length boundaries < 2 then None
      else if g < hd boundaries then Some Under_Range
      else if last boundaries \<le> g then Some Over_Range
      else map_option Bucket (bucket_search boundaries g 0))"

text \<open>The name of the bucket a gap falls into, read from the labels of the table.\<close>

definition bucket_label :: "intervals \<Rightarrow> real \<Rightarrow> string option" where
  "bucket_label d g =
     (case discrete_norm (bounds_of d) g of
        Some (Bucket i) \<Rightarrow> Some (labels_of d ! i)
      | _ \<Rightarrow> None)"

section \<open>The meshes of a render, in closed form\<close>

text \<open>
  The meshes that the loop of \<open>_data_availability\<close> requests, written without the
  loop: one per series that is not empty, numbered by its position in \<open>series\<close>.
  Lemma \<open>draw_rows_split\<close> below shows that the loop computes exactly this list.
\<close>

definition drawn :: "bool \<Rightarrow> nat \<Rightarrow> series list \<Rightarrow> mesh list" where
  "drawn dropna i ss =
     map (\<lambda>(j, s). pcolormesh j dropna s)
       (filter (\<lambda>(j, s). \<not> s_empty s) (enumerate i ss))"

section \<open>Properties of the interval table\<close>

lemma pop_absent: "i \<notin> fst ` set d \<Longrightarrow> filter (\<lambda>kv. fst kv \<noteq> i) d = d"
  by (induction d) auto

text \<open>The removal loop keeps, in their order, the entries whose name is not ignored.\<close>

lemma remove_ignored_filter:
  "remove_ignored ignore d = filter (\<lambda>kv. fst kv \<notin> set ignore) d"
proof (induction ignore arbitrary: d)
  case Nil
  show ?case by simp
next
  case (Cons i ignore)
  have step: "(if dict_contains d i then dict_pop i d else d) = filter (\<lambda>kv. fst kv \<noteq> i) d"
    by (simp add: dict_contains_def dict_pop_def pop_absent)
  show ?case
    unfolding remove_ignored.simps step Cons.IH
    by (auto intro: filter_cong)
qed

lemma dict_get_own_keys:
  "distinct (map fst d) \<Longrightarrow> map (dict_get d) (dict_keys d) = map snd d"
  by (induction d) (auto simp: dict_get_def dict_keys_def rev_image_eqI)

lemma distinct_default_keys: "distinct (map fst default_intervals)"
  by (simp add: default_intervals_def)

lemma sorted_default_values: "sorted_wrt (<) (map snd default_intervals)"
  by (simp add: default_intervals_def)

lemma bounds_of_distinct:
  "distinct (map fst d) \<Longrightarrow> bounds_of d = map (\<lambda>v. v * 10 ^ 9) (map snd d)"
  by (simp add: bounds_of_def dict_get_own_keys)

lemma sorted_scaled:
  "sorted_wrt (<) (vs :: real list) \<Longrightarrow> sorted_wrt (<) (map (\<lambda>v. v * 10 ^ 9) vs)"
  by (simp add: sorted_wrt_map)

lemma default_pruned_sorted:
  "sorted_wrt (<) (bounds_of (remove_ignored ignore default_intervals))"
proof -
  let ?d = "filter (\<lambda>kv. fst kv \<notin> set ignore) default_intervals"
  have dk: "distinct (map fst ?d)"
    using distinct_default_keys by (rule distinct_map_filter)
  have "sorted_wrt (\<lambda>x y. snd x < snd y) default_intervals"
    using sorted_default_values by (simp add: sorted_wrt_map)
  then have "sorted_wrt (\<lambda>x y. snd x < snd y) ?d"
    by (rule sorted_wrt_filter)
  then have "sorted_wrt (<) (map snd ?d)"
    by (simp add: sorted_wrt_map)
  then show ?thesis
    unfolding remove_ignored_filter bounds_of_distinct [OF dk] by (rule sorted_scaled)
qed

lemma bounds_labels_length: "length (bounds_of d) = length (labels_of d)"
  by (simp add: bounds_of_def labels_of_def)

text \<open>
  Claim C3, as amended. The boundary array always has the length of the label list.
  It is strictly ascending when the default table is used, whatever names are
  ignored. A table passed by the caller is not sorted: its boundaries are its values
  in the order of the mapping, times \<open>10^9\<close>.
\<close>

theorem boundaries_ascending_for_default_table:
  "sorted_wrt (<) (bounds_of (resolve_intervals None ignore))
   \<and> length (bounds_of (resolve_intervals intervals ignore))
       = length (labels_of (resolve_intervals intervals ignore))
   \<and> (distinct (map fst d) \<longrightarrow>
        bounds_of (resolve_intervals (Some d) ignore) = map (\<lambda>v. v * 10 ^ 9) (map snd d))"
  by (simp add: resolve_intervals_def default_pruned_sorted bounds_labels_length
      bounds_of_distinct)

text \<open>
  The amended claim C3 at a table of two entries given in descending order: the
  boundaries come out in that order.
\<close>

theorem boundaries_ascending_for_default_table_witness:
  "distinct (map fst [(''day'', 86400 :: real), (''hour'', 3600)])
   \<and> bounds_of (resolve_intervals (Some [(''day'', 86400), (''hour'', 3600)]) [''day''])
       = [86400000000000, 3600000000000]"
proof -
  have h: "distinct (map fst [(''day'', 86400 :: real), (''hour'', 3600)])"
    by simp
  from boundaries_ascending_for_default_table
    [of "[''day'']" None "[(''day'', 86400), (''hour'', 3600)]"] h
  have "bounds_of (resolve_intervals (Some [(''day'', 86400), (''hour'', 3600)]) [''day''])
          = map (\<lambda>v. v * 10 ^ 9) (map snd [(''day'', 86400 :: real), (''hour'', 3600)])"
    by blast
  with h show ?thesis by simp
qed

text \<open>
  Claim C3 as stated fails for a table passed by the caller: with
  \<open>{'day': 86400, 'hour': 3600}\<close> the boundary array is descending.
\<close>

theorem caller_table_not_ascending:
  "\<not> sorted_wrt (<)
       (bounds_of (resolve_intervals (Some [(''day'', 86400), (''hour'', 3600)]) []))"
  by (simp add: resolve_intervals_def bounds_of_def dict_keys_def dict_get_def)

section \<open>Properties of the gaps\<close>




lemma short_row_has_no_cells:
  "length (s_index (retained dropna s)) \<le> 1 \<Longrightarrow> gap_durations dropna s = []"
  by (cases "s_index (retained dropna s)") (simp_all add: gap_durations_def np_diff_def)



section \<open>Properties of the discrete normaliser\<close>

lemma bucket_search_finds:
  "sorted_wrt (<) bs \<Longrightarrow> Suc i < length bs \<Longrightarrow> bs ! i \<le> g \<Longrightarrow> g < bs ! Suc i
   \<Longrightarrow> bucket_search bs g j = Some (j + i)"
proof (induction bs g j arbitrary: i rule: bucket_search.induct)
  case (1 a b bs g j)
  show ?case
  proof (cases i)
    case 0
    with "1.prems" show ?thesis by simp
  next
    case (Suc i')
    have "b \<le> (b # bs) ! i'"
    proof (cases i')
      case 0 then show ?thesis by simp
    next
      case (Suc m)
      with "1.prems"(1,2) \<open>i = Suc i'\<close> have "b < bs ! m" by auto
      with Suc show ?thesis by simp
    qed
    with "1.prems"(3) Suc have bg: "b \<le> g" by simp
    then have no: "\<not> (a \<le> g \<and> g < b)" by simp
    from "1.prems" Suc
    have "bucket_search (b # bs) g (Suc j) = Some (Suc j + i')"
      by (intro "1.IH" [OF no]) auto
    with no Suc show ?thesis by simp
  qed
qed simp_all

lemma sorted_first_le:
  "sorted_wrt (<) (bs :: real list) \<Longrightarrow> i < length bs \<Longrightarrow> hd bs \<le> bs ! i"
  by (cases bs; cases i) (auto simp: less_imp_le)

lemma sorted_le_last:
  "sorted_wrt (<) (bs :: real list) \<Longrightarrow> i < length bs \<Longrightarrow> bs ! i \<le> last bs"
  by (metis last_conv_nth length_greater_0_conv less_Suc_eq_le less_imp_le
      order_refl sorted_wrt_nth_less Suc_pred' le_neq_implies_less list.size(3) not_less_zero)

text \<open>
  Claim C2. For a strictly ascending boundary array (the invariant of the
  normalisation context), a gap \<open>g\<close> with \<open>boundaries[i] \<le> g < boundaries[i+1]\<close>
  goes to bucket \<open>i\<close>: the lower edge belongs to the bucket, the upper edge does not.
  A gap below the first boundary goes to the under indicator and a gap at or after
  the last boundary to the over indicator; no gap faults.
\<close>

theorem discrete_bucket_correct:
  assumes asc: "sorted_wrt (<) boundaries"
  shows "(Suc i < length boundaries \<and> boundaries ! i \<le> g \<and> g < boundaries ! Suc i
            \<longrightarrow> discrete_norm boundaries g = Some (Bucket i))
         \<and> (2 \<le> length boundaries \<and> g < boundaries ! 0
            \<longrightarrow> discrete_norm boundaries g = Some Under_Range)
         \<and> (2 \<le> length boundaries \<and> boundaries ! (length boundaries - 1) \<le> g
            \<longrightarrow> discrete_norm boundaries g = Some Over_Range)"
proof (intro conjI impI)
  assume h: "Suc i < length boundaries \<and> boundaries ! i \<le> g \<and> g < boundaries ! Suc i"
  then have "hd boundaries \<le> boundaries ! i"
    using asc by (intro sorted_first_le) auto
  with h have lo: "\<not> g < hd boundaries" by simp
  from h have "boundaries ! Suc i \<le> last boundaries"
    using asc by (intro sorted_le_last) auto
  with h have hi: "\<not> last boundaries \<le> g" by simp
  from h asc have "bucket_search boundaries g 0 = Some (0 + i)"
    by (intro bucket_search_finds) auto
  with h lo hi show "discrete_norm boundaries g = Some (Bucket i)"
    by (simp add: discrete_norm_def)
next
  assume h: "2 \<le> length boundaries \<and> g < boundaries ! 0"
  then have "boundaries \<noteq> []" by auto
  then have "hd boundaries = boundaries ! 0" by (simp add: hd_conv_nth)
  with h show "discrete_norm boundaries g = Some Under_Range"
    by (simp add: discrete_norm_def)
next
  assume h: "2 \<le> length boundaries \<and> boundaries ! (length boundaries - 1) \<le> g"
  then have ne: "boundaries \<noteq> []" by auto
  then have l: "last boundaries = boundaries ! (length boundaries - 1)"
    by (simp add: last_conv_nth)
  have "hd boundaries \<le> last boundaries"
    unfolding l using asc ne by (intro sorted_first_le) auto
  with h l have "\<not> g < hd boundaries" by simp
  with h l show "discrete_norm boundaries g = Some Over_Range"
    by (simp add: discrete_norm_def)
qed

text \<open>
  Claim C2 at the boundaries 1, 60, 3600: 60 lies on a lower edge and goes to
  bucket 1, 59 to bucket 0, one half is under and 3600 is over.
\<close>

theorem discrete_bucket_correct_witness:
  "sorted_wrt (<) [1, 60, 3600 :: real]
   \<and> discrete_norm [1, 60, 3600] 60 = Some (Bucket 1)
   \<and> discrete_norm [1, 60, 3600] 59 = Some (Bucket 0)
   \<and> discrete_norm [1, 60, 3600] (1 / 2) = Some Under_Range
   \<and> discrete_norm [1, 60, 3600] 3600 = Some Over_Range"
proof -
  have asc: "sorted_wrt (<) [1, 60, 3600 :: real]" by simp
  have a: "discrete_norm [1, 60, 3600] 60 = Some (Bucket 1)"
    using discrete_bucket_correct [OF asc, of 1 60] by simp
  have b: "discrete_norm [1, 60, 3600] 59 = Some (Bucket 0)"
    using discrete_bucket_correct [OF asc, of 0 59] by simp
  have c: "discrete_norm [1, 60, 3600] (1 / 2) = Some Under_Range"
    using discrete_bucket_correct [OF asc, of 0 "1 / 2"] by simp
  have d: "discrete_norm [1, 60, 3600] 3600 = Some Over_Range"
    using discrete_bucket_correct [OF asc, of 0 3600] by simp
  from asc a b c d show ?thesis by blast
qed

lemma default_unpruned_bounds:
  "bounds_of (resolve_intervals None []) =
     [1000000000, 60000000000, 3600000000000, 86400000000000, 604800000000000,
      1209600000000000, 2678400000000000, 10713600000000000, 31622400000000000]"
  by (simp add: resolve_intervals_def bounds_of_def dict_keys_def dict_get_def
      default_intervals_def)

lemma default_unpruned_labels:
  "labels_of (resolve_intervals None []) =
     [''second'', ''minute'', ''hour'', ''day'', ''week'', ''14 days'', ''month'',
      ''quarter'', ''year'']"
  by (simp add: resolve_intervals_def labels_of_def dict_keys_def default_intervals_def)

lemma default_pruned_bounds:
  "bounds_of (resolve_intervals None default_ignore) =
     [3600000000000, 86400000000000, 604800000000000,
      2678400000000000, 10713600000000000, 31622400000000000]"
  by (simp add: resolve_intervals_def bounds_of_def dict_keys_def dict_get_def
      default_intervals_def default_ignore_def dict_contains_def dict_pop_def)

lemma default_pruned_labels:
  "labels_of (resolve_intervals None default_ignore) =
     [''hour'', ''day'', ''week'', ''month'', ''quarter'', ''year'']"
  by (simp add: resolve_intervals_def labels_of_def dict_keys_def
      default_intervals_def default_ignore_def dict_contains_def dict_pop_def)

text \<open>
  Claim C9 as stated fails: with the default table and nothing ignored, the entry
  \<open>14 days\<close> is still in the table, and a gap of 20 days is not in the bucket
  \<open>week\<close>.
\<close>

theorem twenty_days_not_week:
  "bucket_label (resolve_intervals None []) (20 * 86400 * 10 ^ 9) \<noteq> Some ''week''"
  by (simp add: bucket_label_def default_unpruned_bounds default_unpruned_labels
      discrete_norm_def)

text \<open>
  Claim C9, as amended. With the default table and nothing ignored, a gap of exactly
  20 days falls into the bucket \<open>14 days\<close>: the sixth boundary (14 days) is at most
  the gap and the seventh (month, 31 days) is above it. It falls into \<open>week\<close> when
  \<open>14 days\<close> is ignored, as it is under the default of \<open>ignore\<close>.
\<close>

theorem twenty_days_is_14_days:
  "bucket_label (resolve_intervals None []) (20 * 86400 * 10 ^ 9) = Some ''14 days''
   \<and> bounds_of (resolve_intervals None []) ! 5 \<le> 20 * 86400 * 10 ^ 9
   \<and> 20 * 86400 * 10 ^ 9 < bounds_of (resolve_intervals None []) ! 6
   \<and> labels_of (resolve_intervals None []) ! 5 = ''14 days''
   \<and> bucket_label (resolve_intervals None default_ignore) (20 * 86400 * 10 ^ 9)
       = Some ''week''"
  by (simp add: bucket_label_def default_unpruned_bounds default_unpruned_labels
      default_pruned_bounds default_pruned_labels discrete_norm_def)

section \<open>Properties of the heat map\<close>

text \<open>The loop requests the meshes \<open>drawn\<close>, and \<open>pc\<close> ends as the last of them.\<close>

lemma draw_rows_split:
  "draw_rows dropna i ss st =
     (if drawn dropna i ss = [] then fst st else Some (last (drawn dropna i ss)),
      snd st @ drawn dropna i ss)"
proof (induction ss arbitrary: i st)
  case Nil
  show ?case by (simp add: drawn_def)
next
  case (Cons s ss)
  show ?case
    by (simp add: Cons.IH drawn_def)
qed

lemma drawn_empty_iff: "drawn dropna i ss = [] \<longleftrightarrow> (\<forall>s \<in> set ss. s_empty s)"
proof (induction ss arbitrary: i)
  case Nil
  show ?case by (simp add: drawn_def)
next
  case (Cons s ss)
  from Cons.IH [of "Suc i"] show ?case by (simp add: drawn_def)
qed





text \<open>When every series is empty, \<open>pc\<close> is unbound at the colour bar.\<close>

lemma render_unbound:
  assumes "\<forall>s \<in> set series. s_empty s"
    and "make_norm normtype (bounds_of (resolve_intervals intervals ignore)) = Inr nrm"
  shows "data_availability series names intervals ignore normtype cmap set_yticks dropna
           = Inl UnboundLocalError"
  using assms
  by (simp add: data_availability_def Let_def draw_rows_split drawn_empty_iff)




text \<open>
  Claim C10. With a table passed by the caller, the parameter \<open>ignore\<close> has no
  effect: the table in force is the same, and so is everything that
  \<open>_data_availability\<close> returns (boundaries, labels, norm, meshes).
\<close>

theorem ignore_without_effect_on_caller_table:
  "resolve_intervals (Some d) ignore1 = resolve_intervals (Some d) ignore2
   \<and> data_availability series names (Some d) ignore1 normtype cmap set_yticks dropna
       = data_availability series names (Some d) ignore2 normtype cmap set_yticks dropna"
  by (simp add: data_availability_def resolve_intervals_def)











text \<open>
  Claim C7 fails on the code at a render whose only series is empty: the row is
  skipped, so \<open>pc\<close> is never assigned, and the colour bar raises
  \<open>UnboundLocalError\<close> instead of leaving a blank row.
\<close>

theorem empty_series_alone_faults:
  "data_availability [\<lparr>s_name = ''a'', s_rows = []\<rparr>]
     None None default_ignore ''log'' ''viridis_r'' False True
   = Inl UnboundLocalError"
  by (simp add: data_availability_def default_pruned_bounds make_norm_def s_empty_def)

section \<open>Properties of the line plot\<close>



end
